theory Spec2Isabelle
  imports Complex_Main
begin

section \<open>Web trader alerts handler (monitor/web/js/alerts.js)\<close>

text \<open>
  The script keeps two global objects, \<open>window.alerts\<close> (fired signals) and
  \<open>window.active_alerts\<close> (pending alerts), fills them from the server and from push
  events, and renders one table row per alert. Its effects are made explicit here: every
  handler takes the page state and returns the new one; the callbacks that jQuery runs when
  a request completes (\<open>.done\<close>, \<open>.fail\<close>) are functions of their own, applied to the
  response.

  Numbers are JavaScript doubles in the script. They are modelled by exact rationals
  (\<open>rat\<close>), integers by \<open>int\<close>: rounding, infinities and NaN are outside the model, except
  where \<open>parseInt\<close> yields NaN, which is \<open>None\<close>. Strings are lists of 8-bit characters.
\<close>

subsection \<open>Decimal rendering of integers\<close>

text \<open>String concatenation \<open>market_id + ':' + alert_id\<close> renders an integer in decimal.\<close>

definition digit_char :: "nat \<Rightarrow> char" where
  "digit_char d = char_of (48 + d)"

fun show_nat :: "nat \<Rightarrow> string" where
  "show_nat n = (if n < 10 then [digit_char n] else show_nat (n div 10) @ [digit_char (n mod 10)])"

declare show_nat.simps [simp del]

definition show_int :: "int \<Rightarrow> string" where
  "show_int i = (if i < 0 then CHR ''-'' # show_nat (nat (- i)) else show_nat (nat i))"

subsection \<open>Data\<close>

text \<open>
  An alert as decoded from the server's JSON: the properties that the modelled code reads.
  \<open>a_id\<close> is the property \<open>id\<close>, \<open>a_market_id\<close> is \<open>market-id\<close>, \<open>a_price_src\<close> is
  \<open>price-src\<close>, \<open>a_cancellation_price\<close> is \<open>cancellation-price\<close>. An active alert
  carries the direction, the prices and the cancellation threshold; a fired signal carries
  the reason. The direction, the price source and the prices are the numbers that the
  server sends. \<open>a_cancellation = None\<close> stands for a property that is absent or null.
\<close>

record alert =
  a_id :: int
  a_market_id :: string
  a_symbol :: string
  a_name :: string
  a_message :: string
  a_reason :: string
  a_timestamp :: rat
  a_direction :: rat
  a_price_src :: rat
  a_price :: rat
  a_cancellation :: "rat option"
  a_cancellation_price :: rat

text \<open>An entry of \<open>window.markets\<close>: \<open>m_market_id\<close> is its property \<open>market-id\<close>.\<close>

record market =
  m_market_id :: string
  m_symbol :: string

text \<open>The argument of a call of \<open>notify\<close>.\<close>

record notification =
  n_message :: string
  n_title :: string
  n_type :: string

text \<open>
  A request handed to \<open>$.ajax\<close>: its method, its endpoint below \<open>base_url()\<close> and,
  for a removal, the body \<open>{'market-id', 'alert-id', 'action'}\<close>. The session headers
  are not modelled. \<open>d_market_id = None\<close> is a \<open>market-id\<close> that is undefined, which
  \<open>JSON.stringify\<close> leaves out of the body. \<open>d_alert_id = Some n\<close> is the integer
  \<open>n\<close>, which a double holds exactly up to \<open>2^53\<close> in magnitude; \<open>None\<close> is a
  larger number, which the script holds rounded to a double that the model does not compute.
\<close>

record del_alert =
  d_market_id :: "string option"
  d_alert_id :: "int option"
  d_action :: string

datatype ajax = GET string | DELETE string del_alert

text \<open>
  A row of the active alerts table: its \<open>active-alert-key\<close> attribute and the texts of
  its condition and cancellation cells. The other cells and the buttons are not modelled.
\<close>

record active_row =
  r_key :: string
  r_condition :: string
  r_cancellation :: string

text \<open>
  The page state. \<open>alerts\<close> and \<open>active_alerts\<close> are the two global objects: lists of
  properties in the order in which a \<open>for ... in\<close> loop enumerates them, which for these
  keys (none is an array index, since every key holds a colon) is the order of first
  insertion. \<open>markets\<close> holds the own properties of \<open>window.markets\<close>, which another
  script fills. \<open>alert_key\<close> is the global variable that the cleanup loop of
  \<open>on_strategy_signal_alert\<close> assigns without declaring it. \<open>alert_rows\<close> holds the
  \<open>alert-key\<close> attributes of the rows of the signals table, first row first.
  \<open>notified\<close>, \<open>audio\<close> and \<open>sent\<close> log the calls of \<open>notify\<close>, \<open>audio_notify\<close> and
  \<open>$.ajax\<close>, oldest first.
\<close>

record window =
  alerts :: "(string \<times> alert) list"
  active_alerts :: "(string \<times> alert) list"
  markets :: "string \<rightharpoonup> market"
  alert_key :: "string option"
  alert_rows :: "string list"
  active_alert_rows :: "active_row list"
  notified :: "notification list"
  audio :: "string list"
  sent :: "ajax list"

text \<open>The assignment \<open>obj[key] = v\<close>: an existing property keeps its place.\<close>

fun assign :: "string \<Rightarrow> 'a \<Rightarrow> (string \<times> 'a) list \<Rightarrow> (string \<times> 'a) list" where
  "assign key v [] = [(key, v)]"
| "assign key v ((k, u) # props) =
     (if k = key then (key, v) # props else (k, u) # assign key v props)"

text \<open>\<open>delete obj[key]\<close>.\<close>

definition delete :: "string \<Rightarrow> (string \<times> 'a) list \<Rightarrow> (string \<times> 'a) list" where
  "delete key props = filter (\<lambda>p. fst p \<noteq> key) props"

subsection \<open>Formatting\<close>

fun price_src_to_str :: "rat \<Rightarrow> string" where
  "price_src_to_str price_src =
     (if price_src = 0 then ''bid''
      else if price_src = 1 then ''ask''
      else if price_src = 2 then ''mid''
      else '''')"

text \<open>
  In \<open>alert_name_format\<close> and \<open>alert_cancellation_format\<close> the first test reads the
  direction of the parameter \<open>alert_data\<close>, the second one reads \<open>alert.direction\<close>.
  These functions have no parameter or local named \<open>alert\<close>, so the identifier is the
  global \<open>window.alert\<close>: the browser's dialog function, which the script itself calls in
  \<open>on_add_price_cross_alert\<close>. The value of that property is the parameter
  \<open>alert_direction\<close> of the model, \<open>None\<close> when it is undefined (as on the dialog
  function, where nothing defines it); a comparison of undefined with a number is false.
  \<open>format_price\<close> is defined in another script and is a parameter too.
\<close>

definition alert_name_format ::
  "(string \<Rightarrow> rat \<Rightarrow> string) \<Rightarrow> rat option \<Rightarrow> alert \<Rightarrow> string \<Rightarrow> string \<Rightarrow> string" where
  "alert_name_format format_price alert_direction alert_data market_id price_src =
     (if a_name alert_data = ''price-cross'' then
        if a_direction alert_data > 0 then
          ''if '' @ price_src @ '' price goes above '' @ format_price market_id (a_price alert_data)
        else if (case alert_direction of None \<Rightarrow> False | Some d \<Rightarrow> d < 0) then
          ''if '' @ price_src @ '' price goes below '' @ format_price market_id (a_price alert_data)
        else ''-''
      else ''-'')"

definition alert_cancellation_format ::
  "(string \<Rightarrow> rat \<Rightarrow> string) \<Rightarrow> rat option \<Rightarrow> alert \<Rightarrow> string \<Rightarrow> string \<Rightarrow> string" where
  "alert_cancellation_format format_price alert_direction alert_data market_id price_src =
     (case a_cancellation alert_data of
        None \<Rightarrow> ''never''
      | Some cancellation \<Rightarrow>
          if cancellation > 0 then
            if a_direction alert_data > 0 then
              ''if '' @ price_src @ '' price < '' @ format_price market_id cancellation
            else if (case alert_direction of None \<Rightarrow> False | Some d \<Rightarrow> d < 0) then
              ''if '' @ price_src @ '' price > '' @ format_price market_id cancellation
            else ''never''
          else ''never'')"

subsection \<open>Fired signals\<close>

text \<open>
  \<open>on_strategy_signal_alert\<close>: prepends the row, notifies when asked to, stores the
  alert under \<open>market_id + ':' + alert.id\<close> and, above 200 stored alerts, runs the
  cleanup loop. The body of that loop is empty in the script (a comment only), so all it
  does is to assign the loop variable, the undeclared global \<open>alert_key\<close>.
\<close>

definition cleanup :: "window \<Rightarrow> window" where
  "cleanup w = fold (\<lambda>k w'. w'\<lparr>alert_key := Some k\<rparr>) (map fst (alerts w)) w"

definition on_strategy_signal_alert ::
  "string \<Rightarrow> int \<Rightarrow> rat \<Rightarrow> alert \<Rightarrow> bool \<Rightarrow> window \<Rightarrow> window" where
  "on_strategy_signal_alert market_id alert_id timestamp alert do_notify w =
     (let key = market_id @ '':'' @ show_int (a_id alert);
          w1 = w\<lparr>alert_rows := key # alert_rows w\<rparr>;
          w2 = (if do_notify then
                  w1\<lparr>notified := notified w1 @
                       [\<lparr>n_message = a_name alert @ '' '' @ a_reason alert @ '' '' @
                                     a_symbol alert @ '' '' @ a_message alert,
                         n_title = ''Strategy Alert'', n_type = ''info''\<rparr>],
                     audio := audio w1 @ [''alert'']\<rparr>
                else w1);
          w3 = w2\<lparr>alerts := assign key alert (alerts w2)\<rparr>
      in if length (alerts w3) > 200 then cleanup w3 else w3)"

subsection \<open>Active alerts\<close>

text \<open>
  \<open>on_strategy_create_alert\<close>: computes the two condition texts, prepends the row,
  notifies when asked to and stores the alert under \<open>market_id + ':' + alert_id\<close>.
\<close>

definition on_strategy_create_alert ::
  "(string \<Rightarrow> rat \<Rightarrow> string) \<Rightarrow> rat option \<Rightarrow>
   string \<Rightarrow> int \<Rightarrow> rat \<Rightarrow> alert \<Rightarrow> bool \<Rightarrow> window \<Rightarrow> window" where
  "on_strategy_create_alert format_price alert_direction market_id alert_id timestamp alert do_notify w =
     (let key = market_id @ '':'' @ show_int alert_id;
          price_src = price_src_to_str (a_price_src alert);
          condition_msg = alert_name_format format_price alert_direction alert market_id price_src;
          cancellation_msg =
            alert_cancellation_format format_price alert_direction alert market_id price_src;
          w1 = w\<lparr>active_alert_rows :=
                    \<lparr>r_key = key, r_condition = condition_msg, r_cancellation = cancellation_msg\<rparr>
                    # active_alert_rows w\<rparr>;
          w2 = (if do_notify then
                  w1\<lparr>notified := notified w1 @
                       [\<lparr>n_message = a_name alert @ '' '' @ condition_msg @ '' '' @
                                     a_symbol alert @ '' '' @ a_message alert,
                         n_title = ''Strategy Alert Created'', n_type = ''info''\<rparr>]\<rparr>
                else w1)
      in w2\<lparr>active_alerts := assign key alert (active_alerts w2)\<rparr>)"

definition on_strategy_remove_alert :: "string \<Rightarrow> rat \<Rightarrow> int \<Rightarrow> window \<Rightarrow> window" where
  "on_strategy_remove_alert market_id timestamp alert_id w =
     (let key = market_id @ '':'' @ show_int alert_id;
          w1 = w\<lparr>active_alert_rows := filter (\<lambda>r. r_key r \<noteq> key) (active_alert_rows w)\<rparr>
      in if key \<in> fst ` set (active_alerts w1)
         then w1\<lparr>active_alerts := delete key (active_alerts w1)\<rparr>
         else w1)"

subsection \<open>Removal requests\<close>

text \<open>\<open>key.split(':')\<close>: the pieces between the colons; never an empty list.\<close>

fun str_split :: "char \<Rightarrow> string \<Rightarrow> string list" where
  "str_split sep [] = [[]]"
| "str_split sep (c # cs) =
     (if c = sep then [] # str_split sep cs
      else (c # hd (str_split sep cs)) # tl (str_split sep cs))"

text \<open>
  \<open>parseInt(s)\<close> with no radix, after ECMAScript: leading white space is skipped, one
  sign is read, a prefix \<open>0x\<close> or \<open>0X\<close> selects base 16, and the longest run of digits
  of the base is the number; no digit gives NaN (\<open>None\<close>). What follows the digits is
  ignored.
\<close>

definition is_space :: "char \<Rightarrow> bool" where
  "is_space c = (c \<in> set [CHR 0x09, CHR 0x0A, CHR 0x0B, CHR 0x0C, CHR 0x0D, CHR 0x20, CHR 0xA0])"

definition digit_value :: "char \<Rightarrow> nat option" where
  "digit_value c =
     (let n = of_char c :: nat in
      if 48 \<le> n \<and> n \<le> 57 then Some (n - 48)
      else if 97 \<le> n \<and> n \<le> 102 then Some (n - 87)
      else if 65 \<le> n \<and> n \<le> 70 then Some (n - 55)
      else None)"

definition is_digit :: "nat \<Rightarrow> char \<Rightarrow> bool" where
  "is_digit radix c = (case digit_value c of None \<Rightarrow> False | Some d \<Rightarrow> d < radix)"

definition digits_value :: "nat \<Rightarrow> string \<Rightarrow> nat" where
  "digits_value radix z = fold (\<lambda>c n. n * radix + the (digit_value c)) z 0"

definition parseInt :: "string \<Rightarrow> int option" where
  "parseInt s =
     (let s1 = dropWhile is_space s;
          sign = (if take 1 s1 = ''-'' then - 1 else 1 :: int);
          s2 = (if take 1 s1 = ''-'' \<or> take 1 s1 = ''+'' then drop 1 s1 else s1);
          hex = (take 2 s2 = ''0x'' \<or> take 2 s2 = ''0X'');
          radix = (if hex then 16 else 10);
          s3 = (if hex then drop 2 s2 else s2);
          z = takeWhile (is_digit radix) s3
      in if z = [] then None else Some (sign * int (digits_value radix z)))"

text \<open>
  The lookup \<open>window.markets[market_id]\<close>. \<open>window.markets\<close> is a plain object, so
  a name that is not one of its own properties is looked up in \<open>Object.prototype\<close>,
  whose members (ECMAScript, with the legacy accessors that browsers have) are functions,
  and for \<open>__proto__\<close> the prototype object itself: values that count as true and
  have no property \<open>market-id\<close>.
\<close>

definition object_prototype :: "string list" where
  "object_prototype =
     [''constructor'', ''hasOwnProperty'', ''isPrototypeOf'', ''propertyIsEnumerable'',
      ''toLocaleString'', ''toString'', ''valueOf'', ''__proto__'',
      ''__defineGetter__'', ''__defineSetter__'', ''__lookupGetter__'', ''__lookupSetter__'']"

datatype market_slot = Own market | Inherited | Missing

definition markets_get :: "window \<Rightarrow> string \<Rightarrow> market_slot" where
  "markets_get w market_id =
     (case markets w market_id of
        Some market \<Rightarrow> Own market
      | None \<Rightarrow> if market_id \<in> set object_prototype then Inherited else Missing)"

text \<open>\<open>market['market-id']\<close>, undefined (\<open>None\<close>) on an inherited member.\<close>

fun slot_market_id :: "market_slot \<Rightarrow> string option" where
  "slot_market_id (Own market) = Some (m_market_id market)"
| "slot_market_id Inherited = None"
| "slot_market_id Missing = None"

text \<open>The number \<open>alert_id\<close> as the request body carries it.\<close>

definition body_number :: "int \<Rightarrow> int option" where
  "body_number n = (if \<bar>n\<bar> \<le> 2 ^ 53 then Some n else None)"

text \<open>
  \<open>on_remove_alert\<close>, from the key that \<open>retrieve_alert_key(elt)\<close> gives. The result is
  what the function returns: \<open>Some False\<close> for \<open>return false\<close>, \<open>None\<close> where it reaches
  its end without a \<open>return\<close> (undefined). The test \<open>market_id && market && alert_id\<close>
  holds for a non-empty string, a lookup that finds an own or an inherited property, and
  a number that is neither NaN nor zero (a non-zero integer stays non-zero as a double).
\<close>

definition on_remove_alert :: "string \<Rightarrow> window \<Rightarrow> bool option \<times> window" where
  "on_remove_alert key w =
     (let parts = str_split CHR '':'' key in
      if length parts \<noteq> 2 then (Some False, w)
      else
        let market_id = parts ! 0;
            alert_id = parseInt (parts ! 1);
            endpoint = ''strategy/alert'';
            market = markets_get w market_id
        in case alert_id of
             None \<Rightarrow> (None, w)
           | Some n \<Rightarrow>
               if market_id \<noteq> [] \<and> market \<noteq> Missing \<and> n \<noteq> 0 then
                 (None, w\<lparr>sent := sent w @
                    [DELETE endpoint \<lparr>d_market_id = slot_market_id market,
                                      d_alert_id = body_number n,
                                      d_action = ''del-alert''\<rparr>]\<rparr>)
               else (None, w))"

text \<open>
  The response of the removal request, decoded from JSON: \<open>error\<close> is whether its property
  \<open>error\<close> is true, \<open>messages\<close> its array of messages.
\<close>

record remove_response =
  error :: bool
  messages :: "string list"

text \<open>
  The \<open>.done\<close> callback. \<open>for (let msg in data.messages)\<close> enumerates the indices of
  the array, and each notification carries \<open>data.messages[msg]\<close>.
\<close>

definition on_remove_alert_done :: "remove_response \<Rightarrow> window \<Rightarrow> window" where
  "on_remove_alert_done data w =
     (if error data then
        fold (\<lambda>msg w'. w'\<lparr>notified := notified w' @
                 [\<lparr>n_message = messages data ! msg, n_title = ''Remove Alert'', n_type = ''error''\<rparr>]\<rparr>)
             [0 ..< length (messages data)] w
      else w\<lparr>notified := notified w @
                 [\<lparr>n_message = ''Success'', n_title = ''Remove Alert'', n_type = ''success''\<rparr>]\<rparr>)"

text \<open>
  The \<open>.fail\<close> callback gets the request object; \<open>xhr_messages\<close> is its property
  \<open>messages\<close> (the empty list when it has none, as a jQuery request object). Here each
  notification carries the index \<open>msg\<close> itself.
\<close>

definition on_remove_alert_fail :: "string list \<Rightarrow> window \<Rightarrow> window" where
  "on_remove_alert_fail xhr_messages w =
     fold (\<lambda>msg w'. w'\<lparr>notified := notified w' @
              [\<lparr>n_message = show_nat msg, n_title = ''Remove Alert'', n_type = ''error''\<rparr>]\<rparr>)
          [0 ..< length xhr_messages] w"

subsection \<open>Refresh\<close>

text \<open>
  \<open>window.fetch_alerts\<close> sends the two requests; the four callbacks follow. A response
  is modelled by its property \<open>data\<close>: \<open>None\<close> when it is absent or null, the array
  otherwise. A \<open>.done\<close> callback first resets its collection, then returns if there is
  no data, and else stores every alert and renders it without notification.
\<close>

definition fetch_alerts :: "window \<Rightarrow> window" where
  "fetch_alerts w = w\<lparr>sent := sent w @ [GET ''strategy/alert'', GET ''strategy/historical-alert'']\<rparr>"

definition fetch_alerts_active_done ::
  "(string \<Rightarrow> rat \<Rightarrow> string) \<Rightarrow> rat option \<Rightarrow> alert list option \<Rightarrow> window \<Rightarrow> window" where
  "fetch_alerts_active_done format_price alert_direction result_data w =
     (let w0 = w\<lparr>active_alerts := []\<rparr> in
      case result_data of
        None \<Rightarrow> w0
      | Some als \<Rightarrow>
          fold (\<lambda>alert w'.
                  on_strategy_create_alert format_price alert_direction
                    (a_market_id alert) (a_id alert) (a_timestamp alert) alert False
                    (w'\<lparr>active_alerts :=
                         assign (a_market_id alert @ '':'' @ show_int (a_id alert)) alert
                           (active_alerts w')\<rparr>))
               als w0)"

definition fetch_alerts_active_fail :: "window \<Rightarrow> window" where
  "fetch_alerts_active_fail w =
     w\<lparr>notified := notified w @
         [\<lparr>n_message = ''Unable to obtains actives alerts !'',
           n_title = ''fetching'' @ [CHR 0x22], n_type = ''error''\<rparr>]\<rparr>"

definition fetch_alerts_historical_done :: "alert list option \<Rightarrow> window \<Rightarrow> window" where
  "fetch_alerts_historical_done result_data w =
     (let w0 = w\<lparr>alerts := []\<rparr> in
      case result_data of
        None \<Rightarrow> w0
      | Some als \<Rightarrow>
          fold (\<lambda>alert w'.
                  on_strategy_signal_alert
                    (a_market_id alert) (a_id alert) (a_timestamp alert) alert False
                    (w'\<lparr>alerts :=
                         assign (a_market_id alert @ '':'' @ show_int (a_id alert)) alert
                           (alerts w')\<rparr>))
               als w0)"

definition fetch_alerts_historical_fail :: "window \<Rightarrow> window" where
  "fetch_alerts_historical_fail w =
     w\<lparr>notified := notified w @
         [\<lparr>n_message = ''Unable to obtains historical alerts !'',
           n_title = ''fetching'' @ [CHR 0x22], n_type = ''error''\<rparr>]\<rparr>"

subsection \<open>Cancellation price of the details dialog\<close>

text \<open>
  Modelled from the spec: \<open>compute_price_pct\<close> is called by \<open>on_details_alert\<close> and
  defined in another script of the repository. The specification gives it as
  (cancellation price / entry price - 1) times the sign of the direction. \<open>None\<close> stands
  for the division by zero, whose result is no finite number.
\<close>

definition compute_price_pct :: "rat \<Rightarrow> rat \<Rightarrow> rat \<Rightarrow> rat option" where
  "compute_price_pct cancellation_price entry_price direction =
     (if entry_price = 0 then None
      else Some ((cancellation_price / entry_price - 1) * direction))"

text \<open>
  \<open>x.toFixed(f)\<close> after ECMAScript, on the finite numbers below \<open>10^21\<close> in magnitude
  (from there on JavaScript prints the exponent notation, \<open>None\<close> here): the integer
  \<open>n\<close> nearest to \<open>|x| * 10^f\<close>, the larger one on a tie, is printed in decimal,
  padded with zeros to \<open>f + 1\<close> digits, with the point before the last \<open>f\<close> digits and
  the sign of \<open>x\<close> in front.
\<close>

definition toFixed :: "nat \<Rightarrow> rat \<Rightarrow> string option" where
  "toFixed f x =
     (if 10 ^ 21 \<le> \<bar>x\<bar> then None
      else
        let n = nat \<lfloor>\<bar>x\<bar> * 10 ^ f + 1 / 2\<rfloor>;
            m = show_nat n;
            m' = (if f \<noteq> 0 \<and> length m \<le> f then replicate (f + 1 - length m) CHR ''0'' @ m else m);
            body = (if f = 0 then m'
                    else take (length m' - f) m' @ ''.'' @ drop (length m' - f) m')
        in Some ((if x < 0 then ''-'' else []) @ body))"

text \<open>
  The text \<open>cancellation_price_pct\<close> of \<open>on_details_alert\<close>. The direction sign is
  \<open>1\<close> when the direction equals \<open>"long"\<close> or \<open>1\<close>, else \<open>-1\<close>; a direction that is a
  number equals no such string.
\<close>

definition cancellation_price_pct :: "alert \<Rightarrow> string option" where
  "cancellation_price_pct active_alert =
     (case compute_price_pct (a_cancellation_price active_alert) (a_price active_alert)
             (if a_direction active_alert = 1 then 1 else - 1) of
        None \<Rightarrow> None
      | Some cancellation_price_rate \<Rightarrow>
          map_option (\<lambda>t. t @ ''%'') (toFixed 2 (cancellation_price_rate * 100)))"

subsection \<open>Example inputs\<close>

text \<open>An empty page that knows the market \<open>M1\<close>.\<close>

definition page0 :: window where
  "page0 = \<lparr>alerts = [], active_alerts = [],
            markets = [''M1'' \<mapsto> \<lparr>m_market_id = ''M1'', m_symbol = ''M1''\<rparr>],
            alert_key = None, alert_rows = [], active_alert_rows = [],
            notified = [], audio = [], sent = []\<rparr>"

text \<open>The fired signal number \<open>i\<close> of market \<open>M1\<close>, and an active price-cross alert.\<close>

definition signal :: "int \<Rightarrow> alert" where
  "signal i = \<lparr>a_id = i, a_market_id = ''M1'', a_symbol = ''M1'', a_name = ''price-cross'',
               a_message = [], a_reason = ''up'', a_timestamp = 0, a_direction = 1,
               a_price_src = 0, a_price = 100, a_cancellation = None,
               a_cancellation_price = 0\<rparr>"

definition price_cross :: "rat \<Rightarrow> alert" where
  "price_cross direction =
     \<lparr>a_id = 1, a_market_id = ''M1'', a_symbol = ''M1'', a_name = ''price-cross'',
      a_message = [], a_reason = [], a_timestamp = 0, a_direction = direction,
      a_price_src = 0, a_price = 100, a_cancellation = Some 95,
      a_cancellation_price = 95\<rparr>"

section \<open>Properties\<close>

subsection \<open>Objects as property lists\<close>

lemma keys_assign:
  "fst ` set (assign key v props) = insert key (fst ` set props)"
  by (induction props) (simp, force)

lemma length_assign:
  "length (assign key v props) =
     (if key \<in> fst ` set props then length props else Suc (length props))"
  by (induction props) (simp, force)

lemma distinct_assign:
  "distinct (map fst props) \<Longrightarrow> distinct (map fst (assign key v props))"
  by (induction props) (auto simp: keys_assign)

lemma assign_assign: "assign key v (assign key u props) = assign key v props"
  by (induction props) auto

lemma filter_assign:
  "distinct (map fst props) \<Longrightarrow> filter (\<lambda>p. fst p = key) (assign key v props) = [(key, v)]"
proof (induction props)
  case Nil
  then show ?case by simp
next
  case (Cons p props)
  obtain k u where p: "p = (k, u)" by (cases p)
  show ?case
  proof (cases "k = key")
    case True
    with Cons.prems p have "key \<notin> fst ` set props" by simp
    then have "filter (\<lambda>p. fst p = key) props = []"
      by (auto simp: filter_empty_conv)
    with True p show ?thesis by simp
  next
    case False
    with Cons p show ?thesis by simp
  qed
qed

subsection \<open>Keys of distinct identifiers differ\<close>

lemma show_nat_not_Nil: "show_nat n \<noteq> []" "[] \<noteq> show_nat n"
  by (subst show_nat.simps, simp)+

lemma digit_char_inj: "a < 10 \<Longrightarrow> b < 10 \<Longrightarrow> digit_char a = digit_char b \<Longrightarrow> a = b"
proof -
  assume "a < 10" "b < 10" "digit_char a = digit_char b"
  then have "(of_char (digit_char a) :: nat) = of_char (digit_char b)" by simp
  with \<open>a < 10\<close> \<open>b < 10\<close> show "a = b" by (simp add: digit_char_def)
qed

lemma show_nat_inj: "show_nat n = show_nat m \<Longrightarrow> n = m"
proof (induction n arbitrary: m rule: show_nat.induct)
  case (1 n)
  show ?case
  proof (cases "n < 10")
    case True
    show ?thesis
    proof (cases "m < 10")
      case True
      with \<open>n < 10\<close> "1.prems" show ?thesis
        by (simp add: show_nat.simps [of n] show_nat.simps [of m] digit_char_inj)
    next
      case False
      with \<open>n < 10\<close> "1.prems" show ?thesis
        by (simp add: show_nat.simps [of n] show_nat.simps [of m] show_nat_not_Nil)
    qed
  next
    case False
    show ?thesis
    proof (cases "m < 10")
      case True
      with \<open>\<not> n < 10\<close> "1.prems" show ?thesis
        by (simp add: show_nat.simps [of n] show_nat.simps [of m] show_nat_not_Nil)
    next
      case False
      with \<open>\<not> n < 10\<close> "1.prems"
      have eq: "show_nat (n div 10) = show_nat (m div 10)"
        and d: "digit_char (n mod 10) = digit_char (m mod 10)"
        by (simp_all add: show_nat.simps [of n] show_nat.simps [of m])
      from "1.IH" [OF \<open>\<not> n < 10\<close> eq] have "n div 10 = m div 10" .
      moreover from d have "n mod 10 = m mod 10"
        by (auto intro: digit_char_inj)
      ultimately show ?thesis
        by (metis div_mult_mod_eq)
    qed
  qed
qed

subsection \<open>What the handlers store\<close>

lemma fold_notify:
  "fold (\<lambda>i w'. w'\<lparr>notified := notified w' @ [f i]\<rparr>) is w =
   w\<lparr>notified := notified w @ map f is\<rparr>"
  by (induction "is" arbitrary: w) simp_all

lemma map_index: "map (\<lambda>i. f (xs ! i)) [0 ..< length xs] = map f xs"
  by (rule nth_equalityI) simp_all

lemma cleanup_eq:
  "cleanup w = (if alerts w = [] then w else w\<lparr>alert_key := Some (fst (last (alerts w)))\<rparr>)"
proof -
  have "fold (\<lambda>k w'. w'\<lparr>alert_key := Some k\<rparr>) ks w =
        (if ks = [] then w else w\<lparr>alert_key := Some (last ks)\<rparr>)" for ks
    by (induction ks arbitrary: w) simp_all
  then show ?thesis
    by (simp add: cleanup_def last_map)
qed

lemma alerts_on_strategy_signal_alert:
  "alerts (on_strategy_signal_alert market_id alert_id timestamp alert do_notify w) =
   assign (market_id @ '':'' @ show_int (a_id alert)) alert (alerts w)"
  by (simp add: on_strategy_signal_alert_def Let_def cleanup_eq)

lemma active_alerts_on_strategy_create_alert:
  "active_alerts (on_strategy_create_alert format_price alert_direction market_id alert_id
                    timestamp alert do_notify w) =
   assign (market_id @ '':'' @ show_int alert_id) alert (active_alerts w)"
  by (simp add: on_strategy_create_alert_def Let_def)

text \<open>Fired signals with distinct identifiers, none stored yet, all stay in the collection.\<close>

lemma length_fold_signals:
  "distinct is \<Longrightarrow>
   \<forall>i \<in> set is. 0 \<le> i \<and> market_id @ '':'' @ show_int i \<notin> fst ` set (alerts w) \<Longrightarrow>
   length (alerts (fold (\<lambda>i. on_strategy_signal_alert market_id i timestamp (signal i) do_notify) is w)) =
   length (alerts w) + length is"
proof (induction "is" arbitrary: w)
  case Nil
  then show ?case by simp
next
  case (Cons i "is")
  let ?w = "on_strategy_signal_alert market_id i timestamp (signal i) do_notify w"
  have keys: "fst ` set (alerts ?w) = insert (market_id @ '':'' @ show_int i) (fst ` set (alerts w))"
    by (simp add: alerts_on_strategy_signal_alert keys_assign signal_def)
  have len: "length (alerts ?w) = Suc (length (alerts w))"
    using Cons.prems(2) by (simp add: alerts_on_strategy_signal_alert length_assign signal_def)
  have "\<forall>j \<in> set is. 0 \<le> j \<and> market_id @ '':'' @ show_int j \<notin> fst ` set (alerts ?w)"
  proof
    fix j assume j: "j \<in> set is"
    with Cons.prems have "j \<noteq> i" "0 \<le> j" "0 \<le> i" by auto
    then have "show_int j \<noteq> show_int i"
      using show_nat_inj [of "nat j" "nat i"] by (auto simp: show_int_def)
    with j Cons.prems(2) show "0 \<le> j \<and> market_id @ '':'' @ show_int j \<notin> fst ` set (alerts ?w)"
      by (simp add: keys)
  qed
  with Cons.IH [of ?w] Cons.prems(1) len show ?case by simp
qed

text \<open>A fired signal adds its key and removes none.\<close>

lemma on_strategy_signal_alert_keeps_keys:
  "fst ` set (alerts (on_strategy_signal_alert market_id alert_id timestamp alert do_notify w)) =
   insert (market_id @ '':'' @ show_int (a_id alert)) (fst ` set (alerts w))"
  by (simp add: alerts_on_strategy_signal_alert keys_assign)

text \<open>Pushing signals one by one and loading them in bulk store the same properties.\<close>

lemma alerts_fold_push:
  "alerts (fold (\<lambda>i. on_strategy_signal_alert ''M1'' i timestamp (signal i) do_notify) is w) =
   fold (\<lambda>i. assign (''M1:'' @ show_int i) (signal i)) is (alerts w)"
  by (induction "is" arbitrary: w) (simp_all add: alerts_on_strategy_signal_alert signal_def)

lemma alerts_fold_bulk:
  "alerts (fold (\<lambda>alert w'.
             on_strategy_signal_alert
               (a_market_id alert) (a_id alert) (a_timestamp alert) alert False
               (w'\<lparr>alerts :=
                    assign (a_market_id alert @ '':'' @ show_int (a_id alert)) alert
                      (alerts w')\<rparr>))
           (map signal is) w) =
   fold (\<lambda>i. assign (''M1:'' @ show_int i) (signal i)) is (alerts w)"
  by (induction "is" arbitrary: w)
     (simp_all add: alerts_on_strategy_signal_alert assign_assign signal_def)

text \<open>A name of \<open>Object.prototype\<close> is found in every markets object.\<close>

lemma markets_get_inherited:
  "market_id \<in> set object_prototype \<Longrightarrow> markets_get w market_id \<noteq> Missing"
  by (simp add: markets_get_def split: option.split)

subsection \<open>The condition texts where the direction is positive or nothing is set\<close>

lemma alert_name_format_above:
  "a_name alert_data = ''price-cross'' \<Longrightarrow> 0 < a_direction alert_data \<Longrightarrow>
   alert_name_format format_price alert_direction alert_data market_id price_src =
   ''if '' @ price_src @ '' price goes above '' @ format_price market_id (a_price alert_data)"
  by (simp add: alert_name_format_def)

lemma alert_name_format_other:
  "a_name alert_data \<noteq> ''price-cross'' \<or> a_direction alert_data = 0 \<Longrightarrow>
   alert_name_format format_price None alert_data market_id price_src = ''-''"
  by (auto simp: alert_name_format_def)

lemma alert_cancellation_format_long:
  "a_cancellation alert_data = Some c \<Longrightarrow> 0 < c \<Longrightarrow> 0 < a_direction alert_data \<Longrightarrow>
   alert_cancellation_format format_price alert_direction alert_data market_id price_src =
   ''if '' @ price_src @ '' price < '' @ format_price market_id c"
  by (simp add: alert_cancellation_format_def)

lemma alert_cancellation_format_unset:
  "a_cancellation alert_data = None \<Longrightarrow>
   alert_cancellation_format format_price alert_direction alert_data market_id price_src = ''never''"
  by (simp add: alert_cancellation_format_def)

section \<open>The claims\<close>

text \<open>
  C1. The historical collection is to hold at most 200 entries after any sequence of fired
  signals, the oldest being evicted first. The script evicts nothing: from the empty page,
  the 201 signals of market \<open>M1\<close> numbered 1 to 201, each pushed with notification,
  leave 201 entries, and so does a refresh whose response carries these 201 signals,
  whatever the page held before.
\<close>

theorem historical_exceeds_cap:
  "length (alerts (fold (\<lambda>i. on_strategy_signal_alert ''M1'' i 0 (signal i) True) [1..201] page0))
   = 201 \<and>
   length (alerts (fetch_alerts_historical_done (Some (map signal [1..201])) w)) = 201"
proof -
  have push: "length (alerts (fold (\<lambda>i. on_strategy_signal_alert ''M1'' i 0 (signal i) True) [1..201] page0)) =
        length (alerts page0) + length [1..201::int]"
    by (rule length_fold_signals) (simp_all add: page0_def)
  have "alerts (fetch_alerts_historical_done (Some (map signal [1..201])) w) =
        alerts (fold (\<lambda>i. on_strategy_signal_alert ''M1'' i 0 (signal i) True) [1..201] page0)"
    by (simp only: fetch_alerts_historical_done_def Let_def option.case alerts_fold_bulk
          alerts_fold_push)
       (simp add: page0_def)
  with push show ?thesis by (simp add: page0_def)
qed

text \<open>
  C2. With a cancellation threshold set, the cancellation text is to read
  "if src price > threshold" for direction \<open>-1\<close>. With the browser's \<open>alert\<close> as the
  global (no property \<open>direction\<close>), the script yields "never" for an alert of direction
  \<open>-1\<close> and threshold 95, which is not the text asked for.
\<close>

theorem alert_cancellation_format_short:
  "alert_cancellation_format format_price None
     (alert_data\<lparr>a_direction := - 1, a_cancellation := Some 95\<rparr>) market_id price_src = ''never'' \<and>
   ''never'' \<noteq> ''if '' @ price_src @ '' price > '' @ format_price market_id 95"
  by (simp add: alert_cancellation_format_def)

text \<open>
  C3. For a price-cross alert of negative direction the trigger text is to read
  "if src price goes below price". With the browser's \<open>alert\<close> as the global, the
  script yields "-" for a price-cross alert of direction \<open>-1\<close>.
\<close>

theorem alert_name_format_short:
  "alert_name_format format_price None
     (alert_data\<lparr>a_name := ''price-cross'', a_direction := - 1\<rparr>) market_id price_src = ''-'' \<and>
   ''-'' \<noteq> ''if '' @ price_src @ '' price goes below '' @ format_price market_id (a_price alert_data)"
  by (simp add: alert_name_format_def)

text \<open>
  C4, as amended. A key that does not split at its colons into exactly two parts is
  rejected with \<open>false\<close>: nothing is sent and nothing is notified. A key of two parts is
  dropped without a request, without a notification and without a returned value when its
  market part is empty, or is neither a property of \<open>window.markets\<close> nor a name that
  the object inherits from \<open>Object.prototype\<close>, or when \<open>parseInt\<close> of its second part
  is NaN or zero. Every other key of two parts, also one with a negative number or with
  an inherited name such as \<open>constructor\<close> for a market, sends the removal request.
\<close>

theorem on_remove_alert_rejects:
  "(length (str_split CHR '':'' key) \<noteq> 2 \<longrightarrow> on_remove_alert key w = (Some False, w)) \<and>
   (length (str_split CHR '':'' key) = 2 \<and>
      (str_split CHR '':'' key ! 0 = [] \<or>
       markets_get w (str_split CHR '':'' key ! 0) = Missing \<or>
       parseInt (str_split CHR '':'' key ! 1) = None \<or>
       parseInt (str_split CHR '':'' key ! 1) = Some 0)
    \<longrightarrow> on_remove_alert key w = (None, w)) \<and>
   (length (str_split CHR '':'' key) = 2 \<and>
      str_split CHR '':'' key ! 0 \<noteq> [] \<and>
      markets_get w (str_split CHR '':'' key ! 0) \<noteq> Missing \<and>
      parseInt (str_split CHR '':'' key ! 1) = Some n \<and> n \<noteq> 0
    \<longrightarrow> on_remove_alert key w =
          (None, w\<lparr>sent := sent w @
             [DELETE ''strategy/alert''
                \<lparr>d_market_id = slot_market_id (markets_get w (str_split CHR '':'' key ! 0)),
                 d_alert_id = body_number n, d_action = ''del-alert''\<rparr>]\<rparr>))"
  by (auto simp: on_remove_alert_def Let_def split: option.splits)

theorem on_remove_alert_rejects_witness:
  "on_remove_alert ''EURUSD'' page0 = (Some False, page0) \<and>
   on_remove_alert ''M1:0'' page0 = (None, page0) \<and>
   on_remove_alert ''M2:7'' page0 = (None, page0) \<and>
   on_remove_alert ''M1:7'' page0 =
     (None, page0\<lparr>sent := sent page0 @
        [DELETE ''strategy/alert''
           \<lparr>d_market_id = Some ''M1'', d_alert_id = Some 7, d_action = ''del-alert''\<rparr>]\<rparr>) \<and>
   on_remove_alert ''valueOf:5'' page0 =
     (None, page0\<lparr>sent := sent page0 @
        [DELETE ''strategy/alert''
           \<lparr>d_market_id = None, d_alert_id = Some 5, d_action = ''del-alert''\<rparr>]\<rparr>)"
proof -
  have s1: "str_split CHR '':'' ''EURUSD'' = [''EURUSD'']" by simp
  have s2: "str_split CHR '':'' ''M1:0'' = [''M1'', ''0'']" by simp
  have s3: "str_split CHR '':'' ''M1:7'' = [''M1'', ''7'']" by simp
  have s4: "str_split CHR '':'' ''M2:7'' = [''M2'', ''7'']" by simp
  have s5: "str_split CHR '':'' ''valueOf:5'' = [''valueOf'', ''5'']" by simp
  have p2: "parseInt ''0'' = Some 0" by code_simp
  have p3: "parseInt ''7'' = Some 7" by code_simp
  have p5: "parseInt ''5'' = Some 5" by code_simp
  have m1: "markets_get page0 ''M1'' = Own \<lparr>m_market_id = ''M1'', m_symbol = ''M1''\<rparr>"
    by (simp add: markets_get_def page0_def)
  have m2: "markets_get page0 ''M2'' = Missing"
    by (simp add: markets_get_def page0_def object_prototype_def)
  have m5: "markets_get page0 ''valueOf'' = Inherited"
    by (simp add: markets_get_def page0_def object_prototype_def)
  have b7: "body_number 7 = Some 7" and b5: "body_number 5 = Some 5"
    by (simp_all add: body_number_def)
  have "on_remove_alert ''EURUSD'' page0 = (Some False, page0)"
    using on_remove_alert_rejects [of "''EURUSD''" page0] by (simp add: s1)
  moreover have "on_remove_alert ''M1:0'' page0 = (None, page0)"
    using on_remove_alert_rejects [of "''M1:0''" page0] by (simp add: s2 p2)
  moreover have "on_remove_alert ''M2:7'' page0 = (None, page0)"
    using on_remove_alert_rejects [of "''M2:7''" page0] by (simp add: s4 m2)
  moreover have "on_remove_alert ''M1:7'' page0 =
     (None, page0\<lparr>sent := sent page0 @
        [DELETE ''strategy/alert''
           \<lparr>d_market_id = Some ''M1'', d_alert_id = Some 7, d_action = ''del-alert''\<rparr>]\<rparr>)"
    using on_remove_alert_rejects [of "''M1:7''" page0 7] by (simp add: s3 p3 m1 b7)
  moreover have "on_remove_alert ''valueOf:5'' page0 =
     (None, page0\<lparr>sent := sent page0 @
        [DELETE ''strategy/alert''
           \<lparr>d_market_id = None, d_alert_id = Some 5, d_action = ''del-alert''\<rparr>]\<rparr>)"
    using on_remove_alert_rejects [of "''valueOf:5''" page0 5] by (simp add: s5 p5 m5 b5)
  ultimately show ?thesis by simp
qed

text \<open>
  C4 as stated fails: the key \<open>M1:-3\<close> splits into the market \<open>M1\<close> and the number
  \<open>-3\<close>, which is not positive, and on a page that knows \<open>M1\<close> and has sent nothing the
  removal request goes out, with no rejection returned.
\<close>

theorem on_remove_alert_negative_id:
  "str_split CHR '':'' ''M1:-3'' = [''M1'', ''-3''] \<and>
   parseInt ''-3'' = Some (- 3) \<and> (- 3 :: int) < 0 \<and>
   markets page0 ''M1'' = Some \<lparr>m_market_id = ''M1'', m_symbol = ''M1''\<rparr> \<and>
   sent page0 = [] \<and>
   fst (on_remove_alert ''M1:-3'' page0) = None \<and>
   sent (snd (on_remove_alert ''M1:-3'' page0)) =
     [DELETE ''strategy/alert''
        \<lparr>d_market_id = Some ''M1'', d_alert_id = Some (- 3), d_action = ''del-alert''\<rparr>]"
proof -
  have s: "str_split CHR '':'' ''M1:-3'' = [''M1'', ''-3'']" by simp
  have p: "parseInt ''-3'' = Some (- 3)" by code_simp
  show ?thesis
    by (simp add: s p on_remove_alert_def markets_get_def body_number_def page0_def Let_def)
qed

text \<open>
  C5. Whatever the key and whatever the outcome of the request (the \<open>.done\<close> callback
  on any response, the \<open>.fail\<close> callback), a removal request leaves \<open>window.alerts\<close> and
  \<open>window.active_alerts\<close> as they were.
\<close>

theorem on_remove_alert_keeps_collections:
  "alerts (snd (on_remove_alert key w)) = alerts w \<and>
   active_alerts (snd (on_remove_alert key w)) = active_alerts w \<and>
   alerts (on_remove_alert_done data w) = alerts w \<and>
   active_alerts (on_remove_alert_done data w) = active_alerts w \<and>
   alerts (on_remove_alert_fail xhr_messages w) = alerts w \<and>
   active_alerts (on_remove_alert_fail xhr_messages w) = active_alerts w"
  by (simp add: on_remove_alert_def on_remove_alert_done_def on_remove_alert_fail_def
      fold_notify Let_def split: option.split)

text \<open>
  C6. On a response whose \<open>error\<close> is true the \<open>.done\<close> callback adds one error
  notification per message of the response, in their order and carrying them; on any other
  response it adds the single success notification.
\<close>

theorem on_remove_alert_done_notifies:
  "notified (on_remove_alert_done \<lparr>error = True, messages = ms\<rparr> w) =
     notified w @ map (\<lambda>m. \<lparr>n_message = m, n_title = ''Remove Alert'', n_type = ''error''\<rparr>) ms \<and>
   notified (on_remove_alert_done \<lparr>error = False, messages = ms\<rparr> w) =
     notified w @ [\<lparr>n_message = ''Success'', n_title = ''Remove Alert'', n_type = ''success''\<rparr>]"
proof
  have "notified (on_remove_alert_done \<lparr>error = True, messages = ms\<rparr> w) =
        notified w @ map (\<lambda>i. \<lparr>n_message = ms ! i, n_title = ''Remove Alert'', n_type = ''error''\<rparr>)
                       [0 ..< length ms]"
    by (simp add: on_remove_alert_done_def fold_notify)
  also have "map (\<lambda>i. \<lparr>n_message = ms ! i, n_title = ''Remove Alert'', n_type = ''error''\<rparr>)
                 [0 ..< length ms] =
             map (\<lambda>m. \<lparr>n_message = m, n_title = ''Remove Alert'', n_type = ''error''\<rparr>) ms"
    by (rule map_index)
  finally show "notified (on_remove_alert_done \<lparr>error = True, messages = ms\<rparr> w) =
     notified w @ map (\<lambda>m. \<lparr>n_message = m, n_title = ''Remove Alert'', n_type = ''error''\<rparr>) ms" .
next
  show "notified (on_remove_alert_done \<lparr>error = False, messages = ms\<rparr> w) =
     notified w @ [\<lparr>n_message = ''Success'', n_title = ''Remove Alert'', n_type = ''success''\<rparr>]"
    by (simp add: on_remove_alert_done_def)
qed

text \<open>
  C7. When a refresh request fails, its \<open>.fail\<close> callback leaves both collections as
  they were and adds exactly one notification, of type error; it does nothing else.
\<close>

theorem fetch_alerts_fail_keeps_collections:
  "active_alerts (fetch_alerts_active_fail w) = active_alerts w \<and>
   alerts (fetch_alerts_active_fail w) = alerts w \<and>
   notified (fetch_alerts_active_fail w) =
     notified w @ [\<lparr>n_message = ''Unable to obtains actives alerts !'',
                    n_title = ''fetching'' @ [CHR 0x22], n_type = ''error''\<rparr>] \<and>
   alerts (fetch_alerts_historical_fail w) = alerts w \<and>
   active_alerts (fetch_alerts_historical_fail w) = active_alerts w \<and>
   notified (fetch_alerts_historical_fail w) =
     notified w @ [\<lparr>n_message = ''Unable to obtains historical alerts !'',
                    n_title = ''fetching'' @ [CHR 0x22], n_type = ''error''\<rparr>]"
  by (simp add: fetch_alerts_active_fail_def fetch_alerts_historical_fail_def)

text \<open>
  C8. Two \<open>on_strategy_create_alert\<close> events for the same market and alert identifier
  leave exactly one entry under their key in \<open>window.active_alerts\<close>, holding the alert
  of the second event, and the second event adds no entry. The keys of an object are
  distinct, which is the hypothesis on the property list.
\<close>

theorem on_strategy_create_alert_twice:
  "distinct (map fst (active_alerts w)) \<Longrightarrow>
   filter (\<lambda>p. fst p = market_id @ '':'' @ show_int alert_id)
     (active_alerts
       (on_strategy_create_alert format_price alert_direction market_id alert_id timestamp2 alert2 do_notify2
         (on_strategy_create_alert format_price alert_direction market_id alert_id timestamp1 alert1 do_notify1 w)))
   = [(market_id @ '':'' @ show_int alert_id, alert2)] \<and>
   length (active_alerts
       (on_strategy_create_alert format_price alert_direction market_id alert_id timestamp2 alert2 do_notify2
         (on_strategy_create_alert format_price alert_direction market_id alert_id timestamp1 alert1 do_notify1 w)))
   = length (active_alerts
         (on_strategy_create_alert format_price alert_direction market_id alert_id timestamp1 alert1 do_notify1 w))"
  by (simp add: active_alerts_on_strategy_create_alert assign_assign filter_assign length_assign)

theorem on_strategy_create_alert_twice_witness:
  "filter (\<lambda>p. fst p = ''M1:1'')
     (active_alerts
       (on_strategy_create_alert (\<lambda>m p. []) None ''M1'' 1 0 (price_cross 1) True
         (on_strategy_create_alert (\<lambda>m p. []) None ''M1'' 1 0 (price_cross 1) True page0)))
   = [(''M1:1'', price_cross 1)] \<and>
   length (active_alerts
       (on_strategy_create_alert (\<lambda>m p. []) None ''M1'' 1 0 (price_cross 1) True
         (on_strategy_create_alert (\<lambda>m p. []) None ''M1'' 1 0 (price_cross 1) True page0)))
   = 1"
proof -
  have d: "distinct (map fst (active_alerts page0))"
    by (simp add: page0_def)
  have k: "''M1'' @ '':'' @ show_int 1 = ''M1:1''"
    by code_simp
  have l: "length (active_alerts
         (on_strategy_create_alert (\<lambda>m p. []) None ''M1'' 1 0 (price_cross 1) True page0)) = 1"
    by (simp add: active_alerts_on_strategy_create_alert page0_def)
  from on_strategy_create_alert_twice
    [OF d, of "''M1''" 1 "\<lambda>m p. []" None 0 "price_cross 1" True 0 "price_cross 1" True]
  show ?thesis
    unfolding k l .
qed

text \<open>
  C9. \<open>compute_price_pct\<close> returns (cancellation price / entry price - 1) times the
  direction sign wherever the entry price is not zero; for 95, 100 and direction 1 that is
  \<open>-0.05\<close>, which the details dialog shows as "-5.00%".
\<close>

theorem signed_price_percent:
  "(entry_price \<noteq> 0 \<longrightarrow>
      compute_price_pct cancellation_price entry_price direction =
        Some ((cancellation_price / entry_price - 1) * direction)) \<and>
   compute_price_pct 95 100 1 = Some (- (5 / 100)) \<and>
   cancellation_price_pct (active_alert\<lparr>a_cancellation_price := 95, a_price := 100, a_direction := 1\<rparr>) =
     Some ''-5.00%''"
proof -
  have "toFixed 2 (- 5) = Some ''-5.00''"
    by code_simp
  then show ?thesis
    by (simp add: compute_price_pct_def cancellation_price_pct_def)
qed

theorem signed_price_percent_witness:
  "(100 :: rat) \<noteq> 0 \<and> compute_price_pct 95 100 (- 1) = Some ((95 / 100 - 1) * (- 1)) \<and>
   compute_price_pct 95 100 (- 1) = Some (5 / 100)"
proof -
  have h: "(100 :: rat) \<noteq> 0" by simp
  from signed_price_percent [of 100 95 "- 1"] h
  have "compute_price_pct 95 100 (- 1) = Some ((95 / 100 - 1) * (- 1))"
    by blast
  with h show ?thesis by simp
qed

text \<open>
  C10. A refresh that completes with a response without data (absent or null) empties its
  collection, whatever it held: the active alerts for the first request, the fired signals
  for the second.
\<close>

theorem fetch_alerts_done_without_data:
  "active_alerts (fetch_alerts_active_done format_price alert_direction None w) = [] \<and>
   alerts (fetch_alerts_historical_done None w) = []"
  by (simp add: fetch_alerts_active_done_def fetch_alerts_historical_done_def)

end
